theory Spec2Isabelle
  imports Main "HOL-Library.Word"
begin

section \<open>The \<open>$lazy\<close> dispatcher of \<open>src/bun.js/bindings/JS2Native.cpp\<close>\<close>

text \<open>
  The file defines one host function, \<open>jsDollarLazy\<close>, and the enumeration
  \<open>ReadableStreamTag\<close>. Everything else it touches is declared elsewhere: the value
  class of the engine, the call frame, the generated pointer table, the three stream
  loaders and the assertion macros. Those are parameters of the model below.
\<close>

subsection \<open>Machine integers\<close>

text \<open>
  \<open>int\<close> and \<open>int32_t\<close> of the source are 32-bit two's complement words; \<open>sint\<close> reads
  the signed value. Negation and subtraction wrap around, which is what the compiled
  \<open>-id - 1\<close> does (it is the bitwise complement of \<open>id\<close>).
\<close>

type_synonym int32_t = "32 word"

subsection \<open>\<open>enum ReadableStreamTag : int32_t\<close> (lines 18 to 40)\<close>

datatype ReadableStreamTag = Invalid | JavaScript | Blob | File | Direct | Bytes

fun tag_value :: "ReadableStreamTag \<Rightarrow> int32_t" where
  "tag_value Invalid = - 1"
| "tag_value JavaScript = 0"
| "tag_value Blob = 1"
| "tag_value File = 2"
| "tag_value Direct = 3"
| "tag_value Bytes = 4"

subsection \<open>Values of the engine\<close>

text \<open>
  Modelled from the spec: \<open>JSC::JSValue\<close>, \<open>JSC::EncodedJSValue\<close> and
  \<open>JSValue::encode\<close> come from the JavaScriptCore headers, which are not under src/.
  The spec says the dispatcher "returns the invoked function's result unchanged; adds no
  wrapping, translation": a \<open>JSValue\<close> holds one encoded word (the type parameter
  \<open>'e\<close>), and \<open>encode\<close> hands that word out as it is.
\<close>

datatype 'e JSValue = JSValue (encode: 'e)

text \<open>
  The call frame. \<open>uncheckedArgument\<close> reads the slot of the argument without
  comparing its index to the number of arguments that were passed; a slot beyond
  \<open>argumentCount\<close> holds whatever the frame has there.
\<close>

record 'e CallFrame =
  argumentCount :: nat
  argument_slot :: "nat \<Rightarrow> 'e JSValue"

definition uncheckedArgument :: "'e CallFrame \<Rightarrow> nat \<Rightarrow> 'e JSValue" where
  "uncheckedArgument callFrame i = argument_slot callFrame i"

subsection \<open>Native functions and what the dispatcher is linked against\<close>

text \<open>
  A native function receives the global object (type \<open>'g\<close>) and runs against the state of
  the engine (type \<open>'s\<close>): it returns a value and the state it leaves behind.
  The entries of the generated table return a \<open>JSValue\<close>, the three loaders are
  \<open>extern "C"\<close> and return an encoded value (lines 11 to 13).
\<close>

type_synonym ('g, 's, 'r) native = "'g \<Rightarrow> 's \<Rightarrow> 'r \<times> 's"

record ('g, 's, 'e) env =
  isInt32 :: "'e JSValue \<Rightarrow> bool"
  asInt32 :: "'e JSValue \<Rightarrow> int32_t"
  toWTFString :: "'e JSValue \<Rightarrow> 'g \<Rightarrow> 's \<Rightarrow> string"
  js2nativePointers :: "('g, 's, 'e JSValue) native list"
  ByteBlob_load :: "('g, 's, 'e) native"
  FileReader_load :: "('g, 's, 'e) native"
  ByteStream_load :: "('g, 's, 'e) native"

subsection \<open>Outcomes of a call\<close>

text \<open>
  A call either returns an encoded value to its caller, leaving a state, or it does not
  return: an assertion fails, the process is crashed with a message, or the table is
  subscripted outside its bounds, which C++ leaves undefined (the comment at lines 70 to
  73 expects a segmentation fault there).
\<close>

datatype ('e, 's) outcome =
    Returned 'e 's
  | AssertionFailed string
  | Crashed string
  | OutOfBounds int

text \<open>
  Modelled from the spec: \<open>ASSERT_WITH_MESSAGE\<close> and \<open>CRASH_WITH_INFO\<close> are macros of
  \<open>wtf/Assertions.h\<close>, which is not under src/. Per the spec a violated check "raises an
  assertion carrying the value's textual form", and on the failure path "the process
  terminates immediately with a diagnostic".
\<close>

definition ASSERT_WITH_MESSAGE :: "bool \<Rightarrow> string \<Rightarrow> ('e, 's) outcome option" where
  "ASSERT_WITH_MESSAGE assertion message =
     (if assertion then None else Some (AssertionFailed message))"

definition CRASH_WITH_INFO :: "string \<Rightarrow> ('e, 's) outcome" where
  "CRASH_WITH_INFO message = Crashed message"

text \<open>
  A C++ array subscript: inside the bounds it yields the element, outside there is no
  check and no defined result.
\<close>

definition array_read :: "'a list \<Rightarrow> int \<Rightarrow> 'a option" where
  "array_read xs i = (if 0 \<le> i \<and> i < int (length xs) then Some (xs ! nat i) else None)"

subsection \<open>\<open>jsDollarLazy\<close> (lines 43 to 78)\<close>

definition assert_message :: "string \<Rightarrow> string" where
  "assert_message got = ''In call to $lazy: expected Int32, got '' @ got"

definition crash_message :: "bool \<Rightarrow> string" where
  "crash_message BUN_DEBUG =
     (if BUN_DEBUG
      then ''Invalid call to @native. If you aren't calling this directly then bug @paperdave as they made a mistake in the code generator''
      else ''Invalid call to @native. This should never be reached and is a bug in Bun or you got a handle to our internal code.'')"

text \<open>
  The first parameter is the build flag \<open>BUN_DEBUG\<close> of the two \<open>#if\<close> blocks. The
  \<open>static_cast\<close> of line 54 changes the static type of the pointer to the global object,
  not the object.
\<close>

definition jsDollarLazy ::
  "bool \<Rightarrow> ('g, 's, 'e) env \<Rightarrow> 'g \<Rightarrow> 'e CallFrame \<Rightarrow> 's \<Rightarrow> ('e, 's) outcome" where
  "jsDollarLazy BUN_DEBUG env lexicalGlobalObject callFrame st =
     (let target = uncheckedArgument callFrame 0 in
      case (if BUN_DEBUG
            then ASSERT_WITH_MESSAGE (isInt32 env target)
                   (assert_message (toWTFString env target lexicalGlobalObject st))
            else None) of
        Some failed \<Rightarrow> failed
      | None \<Rightarrow>
          let id = asInt32 env target in
          if sint id < 0 then
            (case array_read (js2nativePointers env) (sint (- id - 1)) of
               None \<Rightarrow> OutOfBounds (sint (- id - 1))
             | Some f \<Rightarrow>
                 (case f lexicalGlobalObject st of (v, st') \<Rightarrow> Returned (encode v) st'))
          else if id = tag_value Blob then
            (case ByteBlob_load env lexicalGlobalObject st of (r, st') \<Rightarrow> Returned r st')
          else if id = tag_value File then
            (case FileReader_load env lexicalGlobalObject st of (r, st') \<Rightarrow> Returned r st')
          else if id = tag_value Bytes then
            (case ByteStream_load env lexicalGlobalObject st of (r, st') \<Rightarrow> Returned r st')
          else CRASH_WITH_INFO (crash_message BUN_DEBUG))"

subsection \<open>A concrete engine for running the model\<close>

text \<open>
  Encoded words are either a 32-bit integer (\<open>Inl\<close>) or some other value, given by its
  text (\<open>Inr\<close>). The global object and the state are numbers; every native function
  counts its call in the state.
\<close>

definition example_env :: "(nat, nat, int + string) env" where
  "example_env =
     \<lparr> isInt32 = (\<lambda>v. case encode v of Inl n \<Rightarrow> True | Inr t \<Rightarrow> False),
       asInt32 = (\<lambda>v. case encode v of Inl n \<Rightarrow> word_of_int n | Inr t \<Rightarrow> word_of_int (int (length t))),
       toWTFString = (\<lambda>v g s. case encode v of Inl n \<Rightarrow> ''[int]'' | Inr t \<Rightarrow> t),
       js2nativePointers =
         [\<lambda>g s. (JSValue (Inl (int g + 100)), Suc s),
          \<lambda>g s. (JSValue (Inr ''second''), Suc s)],
       ByteBlob_load = (\<lambda>g s. (Inr ''blob'', Suc s)),
       FileReader_load = (\<lambda>g s. (Inr ''file'', Suc s)),
       ByteStream_load = (\<lambda>g s. (Inr ''bytes'', Suc s)) \<rparr>"

definition example_frame :: "int + string \<Rightarrow> (int + string) CallFrame" where
  "example_frame w =
     \<lparr> argumentCount = 1,
       argument_slot = (\<lambda>i. if i = 0 then JSValue w else JSValue (Inr ''undefined'')) \<rparr>"

section \<open>Properties\<close>

subsection \<open>Shared lemmas\<close>

text \<open>
  The index \<open>-id - 1\<close>, computed on 32-bit words, is the integer \<open>- id - 1\<close> for every
  \<open>id\<close>: for a negative \<open>id\<close> it lies between 0 and \<open>2 ^ 31 - 1\<close>.
\<close>

lemma index_of_token: "sint (- t - 1 :: int32_t) = - sint t - 1"
proof -
  have lo: "- (2 ^ 31) \<le> - sint t - 1" and hi: "- sint t - 1 < 2 ^ 31"
    using sint_ge [of t] sint_lt [of t] by simp_all
  have "- t - 1 = (word_of_int (- sint t - 1) :: int32_t)"
    by simp
  then have "sint (- t - 1) = signed_take_bit 31 (- sint t - 1)"
    by (simp only: sint_sbintrunc') simp
  also have "\<dots> = - sint t - 1"
    using lo hi by (rule signed_take_bit_int_eq_self)
  finally show ?thesis .
qed

text \<open>What a call does once the check of the debug build is passed or absent.\<close>

lemma jsDollarLazy_token:
  assumes "\<not> BUN_DEBUG \<or> isInt32 env (argument_slot callFrame 0)"
  shows "jsDollarLazy BUN_DEBUG env g callFrame st =
     (let t = asInt32 env (argument_slot callFrame 0) in
      if sint t < 0 then
        (case array_read (js2nativePointers env) (- sint t - 1) of
           None \<Rightarrow> OutOfBounds (- sint t - 1)
         | Some f \<Rightarrow> Returned (encode (fst (f g st))) (snd (f g st)))
      else if t = 1 then Returned (fst (ByteBlob_load env g st)) (snd (ByteBlob_load env g st))
      else if t = 2 then Returned (fst (FileReader_load env g st)) (snd (FileReader_load env g st))
      else if t = 4 then Returned (fst (ByteStream_load env g st)) (snd (ByteStream_load env g st))
      else Crashed (crash_message BUN_DEBUG))"
  using assms
  by (auto simp: jsDollarLazy_def uncheckedArgument_def ASSERT_WITH_MESSAGE_def
      CRASH_WITH_INFO_def index_of_token Let_def split: option.splits prod.splits)

text \<open>What a call of the debug build does when the check fails.\<close>

lemma jsDollarLazy_assert:
  assumes "BUN_DEBUG" and "\<not> isInt32 env (argument_slot callFrame 0)"
  shows "jsDollarLazy BUN_DEBUG env g callFrame st =
     AssertionFailed (assert_message (toWTFString env (argument_slot callFrame 0) g st))"
  using assms
  by (simp add: jsDollarLazy_def uncheckedArgument_def ASSERT_WITH_MESSAGE_def)

text \<open>The concrete engine: its reading of the first argument, and its table.\<close>

lemma example_token [simp]:
  "asInt32 example_env (argument_slot (example_frame (Inl n)) 0) = word_of_int n"
  "asInt32 example_env (argument_slot (example_frame (Inr w)) 0) = word_of_int (int (length w))"
  "isInt32 example_env (argument_slot (example_frame (Inl n)) 0)"
  "\<not> isInt32 example_env (argument_slot (example_frame (Inr w)) 0)"
  "toWTFString example_env (argument_slot (example_frame (Inr w)) 0) g s = w"
  by (simp_all add: example_env_def example_frame_def)

lemma example_table [simp]:
  "js2nativePointers example_env =
     [\<lambda>g s. (JSValue (Inl (int g + 100)), Suc s), \<lambda>g s. (JSValue (Inr ''second''), Suc s)]"
  "ByteBlob_load example_env = (\<lambda>g s. (Inr ''blob'', Suc s))"
  "FileReader_load example_env = (\<lambda>g s. (Inr ''file'', Suc s))"
  "ByteStream_load example_env = (\<lambda>g s. (Inr ''bytes'', Suc s))"
  by (simp_all add: example_env_def)

text \<open>
  A call that ends in the crash of the failure path: its message is the one of the build,
  and its token is neither negative nor one of the three dispatched tags.
\<close>

lemma jsDollarLazy_crashed:
  assumes "jsDollarLazy BUN_DEBUG env g callFrame st = Crashed message"
  shows "message = crash_message BUN_DEBUG
       \<and> 0 \<le> sint (asInt32 env (argument_slot callFrame 0))
       \<and> asInt32 env (argument_slot callFrame 0) \<notin> {1, 2, 4}"
proof (cases "\<not> BUN_DEBUG \<or> isInt32 env (argument_slot callFrame 0)")
  case True
  show ?thesis
    using assms
    by (simp add: jsDollarLazy_token [OF True] Let_def split: if_splits option.splits)
next
  case False
  then have "jsDollarLazy BUN_DEBUG env g callFrame st =
      AssertionFailed (assert_message (toWTFString env (argument_slot callFrame 0) g st))"
    by (simp add: jsDollarLazy_assert)
  with assms show ?thesis by simp
qed

subsection \<open>The generated pointer table\<close>

text \<open>
  Claim C1. For every negative token \<open>t\<close> whose index \<open>- t - 1\<close> lies inside the
  generated pointer table, the dispatcher calls the table entry at that index, and no
  other function, with the global object of the call: the value it returns is the encoded
  word of the value that entry returned, and the state it leaves is the state that entry
  left. For the token \<open>- 1\<close> the entry is the first one of the table.
\<close>

theorem table_dispatch:
  assumes "\<not> BUN_DEBUG \<or> isInt32 env (argument_slot callFrame 0)"
    and "asInt32 env (argument_slot callFrame 0) = t"
    and "sint t < 0"
    and "- sint t - 1 < int (length (js2nativePointers env))"
  shows "jsDollarLazy BUN_DEBUG env g callFrame st =
           Returned (encode (fst ((js2nativePointers env ! nat (- sint t - 1)) g st)))
                    (snd ((js2nativePointers env ! nat (- sint t - 1)) g st))
         \<and> (t = - 1 \<longrightarrow>
              jsDollarLazy BUN_DEBUG env g callFrame st =
                Returned (encode (fst ((js2nativePointers env ! 0) g st)))
                         (snd ((js2nativePointers env ! 0) g st)))"
proof -
  have "array_read (js2nativePointers env) (- sint t - 1) =
          Some (js2nativePointers env ! nat (- sint t - 1))"
    using assms(3,4) by (simp add: array_read_def)
  then have first: "jsDollarLazy BUN_DEBUG env g callFrame st =
           Returned (encode (fst ((js2nativePointers env ! nat (- sint t - 1)) g st)))
                    (snd ((js2nativePointers env ! nat (- sint t - 1)) g st))"
    using assms(1,2,3) by (simp add: jsDollarLazy_token)
  moreover have "t = - 1 \<Longrightarrow> nat (- sint t - 1) = 0"
    by simp
  ultimately show ?thesis by auto
qed

theorem table_dispatch_witness:
  "sint (- 1 :: int32_t) < 0 \<and>
   - sint (- 1 :: int32_t) - 1 < int (length (js2nativePointers example_env)) \<and>
   jsDollarLazy True example_env 7 (example_frame (Inl (- 1))) 0 = Returned (Inl 107) 1"
  using table_dispatch [of True example_env "example_frame (Inl (- 1))" "- 1" 7 0]
  by simp

text \<open>
  Claim C5. For every negative token the dispatcher subscripts the table at
  \<open>- token - 1\<close>, which is never negative, and compares it with nothing. When the index
  is inside the table the entry is called; when the table is too short the call is the
  out-of-bounds subscript itself: neither the assertion nor the crash of the failure path
  stands in its way.
\<close>

theorem negative_token_unchecked:
  assumes "\<not> BUN_DEBUG \<or> isInt32 env (argument_slot callFrame 0)"
    and "asInt32 env (argument_slot callFrame 0) = t"
    and "sint t < 0"
  shows "0 \<le> - sint t - 1
       \<and> (- sint t - 1 < int (length (js2nativePointers env)) \<longrightarrow>
            jsDollarLazy BUN_DEBUG env g callFrame st =
              Returned (encode (fst ((js2nativePointers env ! nat (- sint t - 1)) g st)))
                       (snd ((js2nativePointers env ! nat (- sint t - 1)) g st)))
       \<and> (int (length (js2nativePointers env)) \<le> - sint t - 1 \<longrightarrow>
            jsDollarLazy BUN_DEBUG env g callFrame st = OutOfBounds (- sint t - 1))"
proof -
  have call: "jsDollarLazy BUN_DEBUG env g callFrame st =
      (case array_read (js2nativePointers env) (- sint t - 1) of
         None \<Rightarrow> OutOfBounds (- sint t - 1)
       | Some f \<Rightarrow> Returned (encode (fst (f g st))) (snd (f g st)))"
    using assms by (simp add: jsDollarLazy_token)
  have index: "0 \<le> - sint t - 1"
    using assms(3) by simp
  show ?thesis
    using index by (simp add: call array_read_def)
qed

theorem negative_token_unchecked_witness:
  "sint (- 2 :: int32_t) < 0 \<and> sint (- 3 :: int32_t) < 0 \<and>
   jsDollarLazy True example_env 7 (example_frame (Inl (- 2))) 0 = Returned (Inr ''second'') 1 \<and>
   jsDollarLazy True example_env 7 (example_frame (Inl (- 3))) 0 = OutOfBounds 2"
  using negative_token_unchecked [of True example_env "example_frame (Inl (- 2))" "- 2" 7 0]
    negative_token_unchecked [of True example_env "example_frame (Inl (- 3))" "- 3" 7 0]
  by simp

text \<open>
  Claim C4, as the code has it. The sentinel \<open>Invalid\<close> is \<open>- 1\<close>, a negative token.
  Called with it, the dispatcher of either build subscripts the table at index 0: in the
  concrete engine it calls the first entry and returns that entry's value, where the
  claim has it crash on the failure path.
\<close>

theorem invalid_sentinel_counterexample:
  "asInt32 example_env (argument_slot (example_frame (Inl (- 1))) 0) = tag_value Invalid \<and>
   fst ((js2nativePointers example_env ! 0) 7 0) = JSValue (Inl 107) \<and>
   jsDollarLazy True example_env 7 (example_frame (Inl (- 1))) 0 = Returned (Inl 107) 1 \<and>
   jsDollarLazy False example_env 7 (example_frame (Inl (- 1))) 0 = Returned (Inl 107) 1 \<and>
   jsDollarLazy True example_env 7 (example_frame (Inl (- 1))) 0 \<noteq> Crashed (crash_message True) \<and>
   jsDollarLazy False example_env 7 (example_frame (Inl (- 1))) 0 \<noteq> Crashed (crash_message False)"
  by (simp add: jsDollarLazy_token array_read_def)

text \<open>
  Claim C4, amended. Called with the sentinel \<open>Invalid\<close> (\<open>- 1\<close>), the dispatcher takes
  the path of the negative tokens: with a table of at least one entry it calls the first
  entry and returns its result, with an empty table the subscript at index 0 is out of
  bounds and unchecked; in no case does it reach the crash of the failure path.
\<close>

theorem invalid_sentinel_indexes_table:
  assumes "\<not> BUN_DEBUG \<or> isInt32 env (argument_slot callFrame 0)"
    and "asInt32 env (argument_slot callFrame 0) = tag_value Invalid"
  shows "(js2nativePointers env \<noteq> [] \<longrightarrow>
            jsDollarLazy BUN_DEBUG env g callFrame st =
              Returned (encode (fst ((js2nativePointers env ! 0) g st)))
                       (snd ((js2nativePointers env ! 0) g st)))
       \<and> (js2nativePointers env = [] \<longrightarrow>
            jsDollarLazy BUN_DEBUG env g callFrame st = OutOfBounds 0)
       \<and> (\<forall>message. jsDollarLazy BUN_DEBUG env g callFrame st \<noteq> Crashed message)"
proof -
  have call: "jsDollarLazy BUN_DEBUG env g callFrame st =
      (case array_read (js2nativePointers env) 0 of
         None \<Rightarrow> OutOfBounds 0
       | Some f \<Rightarrow> Returned (encode (fst (f g st))) (snd (f g st)))"
    using assms by (simp add: jsDollarLazy_token split: option.splits)
  show ?thesis
    by (cases "js2nativePointers env") (simp_all add: call array_read_def)
qed

theorem invalid_sentinel_indexes_table_witness:
  "asInt32 example_env (argument_slot (example_frame (Inl (- 1))) 0) = tag_value Invalid \<and>
   js2nativePointers example_env \<noteq> [] \<and>
   jsDollarLazy True example_env 7 (example_frame (Inl (- 1))) 0 = Returned (Inl 107) 1 \<and>
   jsDollarLazy True example_env 7 (example_frame (Inl (- 1))) 0 \<noteq> Crashed (crash_message True) \<and>
   jsDollarLazy True (example_env\<lparr>js2nativePointers := []\<rparr>) 7 (example_frame (Inl (- 1))) 0 =
     OutOfBounds 0"
  using invalid_sentinel_indexes_table [of True example_env "example_frame (Inl (- 1))" 7 0]
    invalid_sentinel_indexes_table [of True "example_env\<lparr>js2nativePointers := []\<rparr>"
      "example_frame (Inl (- 1))" 7 0]
  by (simp add: example_env_def example_frame_def)

subsection \<open>The reserved tags\<close>

text \<open>
  Claim C2. For a token equal to the tag \<open>Blob\<close>, \<open>File\<close> or \<open>Bytes\<close> the dispatcher
  calls the loader of that tag, and nothing else, with the global object of the call, and
  returns the loader's result and state as they are. The pointer table plays no part:
  with any other table in its place the call does the same.
\<close>

theorem reserved_tag_dispatch:
  assumes "\<not> BUN_DEBUG \<or> isInt32 env (argument_slot callFrame 0)"
    and "asInt32 env (argument_slot callFrame 0) = t"
    and "t \<in> {tag_value Blob, tag_value File, tag_value Bytes}"
  shows "(t = tag_value Blob \<longrightarrow>
            jsDollarLazy BUN_DEBUG env g callFrame st =
              Returned (fst (ByteBlob_load env g st)) (snd (ByteBlob_load env g st)))
       \<and> (t = tag_value File \<longrightarrow>
            jsDollarLazy BUN_DEBUG env g callFrame st =
              Returned (fst (FileReader_load env g st)) (snd (FileReader_load env g st)))
       \<and> (t = tag_value Bytes \<longrightarrow>
            jsDollarLazy BUN_DEBUG env g callFrame st =
              Returned (fst (ByteStream_load env g st)) (snd (ByteStream_load env g st)))
       \<and> jsDollarLazy BUN_DEBUG (env\<lparr>js2nativePointers := table\<rparr>) g callFrame st =
           jsDollarLazy BUN_DEBUG env g callFrame st"
proof -
  have nonneg: "\<not> sint t < 0"
    using assms(3) by auto
  have here: "jsDollarLazy BUN_DEBUG env g callFrame st =
      (if t = 1 then Returned (fst (ByteBlob_load env g st)) (snd (ByteBlob_load env g st))
       else if t = 2 then Returned (fst (FileReader_load env g st)) (snd (FileReader_load env g st))
       else Returned (fst (ByteStream_load env g st)) (snd (ByteStream_load env g st)))"
    using assms nonneg by (auto simp: jsDollarLazy_token)
  have there: "jsDollarLazy BUN_DEBUG (env\<lparr>js2nativePointers := table\<rparr>) g callFrame st =
      (if t = 1 then Returned (fst (ByteBlob_load env g st)) (snd (ByteBlob_load env g st))
       else if t = 2 then Returned (fst (FileReader_load env g st)) (snd (FileReader_load env g st))
       else Returned (fst (ByteStream_load env g st)) (snd (ByteStream_load env g st)))"
    using assms nonneg by (auto simp: jsDollarLazy_token)
  show ?thesis
    using here there by auto
qed

theorem reserved_tag_dispatch_witness:
  "(1 :: int32_t) \<in> {tag_value Blob, tag_value File, tag_value Bytes} \<and>
   jsDollarLazy True example_env 7 (example_frame (Inl 1)) 0 = Returned (Inr ''blob'') 1 \<and>
   jsDollarLazy True example_env 7 (example_frame (Inl 2)) 0 = Returned (Inr ''file'') 1 \<and>
   jsDollarLazy True example_env 7 (example_frame (Inl 4)) 0 = Returned (Inr ''bytes'') 1 \<and>
   jsDollarLazy True (example_env\<lparr>js2nativePointers := []\<rparr>) 7 (example_frame (Inl 2)) 0 =
     jsDollarLazy True example_env 7 (example_frame (Inl 2)) 0"
  using reserved_tag_dispatch [of True example_env "example_frame (Inl 1)" 1 7 0 "[]"]
    reserved_tag_dispatch [of True example_env "example_frame (Inl 2)" 2 7 0 "[]"]
    reserved_tag_dispatch [of True example_env "example_frame (Inl 4)" 4 7 0 "[]"]
  by simp

text \<open>
  Claim C9. Among the tokens that are not negative, the dispatched ones are exactly 1, 2
  and 4: 1 is the tag \<open>Blob\<close> and the call is the call of the blob loader, 2 is
  \<open>File\<close> and the call is the call of the file loader, 4 is \<open>Bytes\<close> and the call is
  the call of the byte-stream loader, each returning the loader's value and state. The
  values 0 (\<open>JavaScript\<close>), 3 (\<open>Direct\<close>) and everything from 5 upwards end in the
  crash of the failure path, so a call returns on these three tokens and on no other.
\<close>

theorem dispatched_tags_exactly:
  assumes "\<not> BUN_DEBUG \<or> isInt32 env (argument_slot callFrame 0)"
    and "asInt32 env (argument_slot callFrame 0) = t"
    and "0 \<le> sint t"
  shows "(sint t = 1 \<longrightarrow> t = tag_value Blob \<and>
            jsDollarLazy BUN_DEBUG env g callFrame st =
              Returned (fst (ByteBlob_load env g st)) (snd (ByteBlob_load env g st)))
       \<and> (sint t = 2 \<longrightarrow> t = tag_value File \<and>
            jsDollarLazy BUN_DEBUG env g callFrame st =
              Returned (fst (FileReader_load env g st)) (snd (FileReader_load env g st)))
       \<and> (sint t = 4 \<longrightarrow> t = tag_value Bytes \<and>
            jsDollarLazy BUN_DEBUG env g callFrame st =
              Returned (fst (ByteStream_load env g st)) (snd (ByteStream_load env g st)))
       \<and> (sint t = 0 \<longrightarrow> t = tag_value JavaScript)
       \<and> (sint t = 3 \<longrightarrow> t = tag_value Direct)
       \<and> (sint t = 0 \<or> sint t = 3 \<or> 5 \<le> sint t \<longrightarrow>
            jsDollarLazy BUN_DEBUG env g callFrame st = Crashed (crash_message BUN_DEBUG))
       \<and> ((\<exists>r st'. jsDollarLazy BUN_DEBUG env g callFrame st = Returned r st') \<longleftrightarrow>
            sint t \<in> {1, 2, 4})"
proof -
  have zero: "t = 0 \<longleftrightarrow> sint t = 0" and one: "t = 1 \<longleftrightarrow> sint t = 1"
    and two: "t = 2 \<longleftrightarrow> sint t = 2" and three: "t = 3 \<longleftrightarrow> sint t = 3"
    and four: "t = 4 \<longleftrightarrow> sint t = 4"
    by (simp_all add: word_eq_iff_signed [where ?'a = int, of t])
  have call: "jsDollarLazy BUN_DEBUG env g callFrame st =
      (if sint t = 1 then Returned (fst (ByteBlob_load env g st)) (snd (ByteBlob_load env g st))
       else if sint t = 2 then Returned (fst (FileReader_load env g st)) (snd (FileReader_load env g st))
       else if sint t = 4 then Returned (fst (ByteStream_load env g st)) (snd (ByteStream_load env g st))
       else Crashed (crash_message BUN_DEBUG))"
    using assms by (simp add: jsDollarLazy_token one two four)
  have tags: "(sint t = 1 \<longrightarrow> t = tag_value Blob) \<and> (sint t = 2 \<longrightarrow> t = tag_value File)
      \<and> (sint t = 4 \<longrightarrow> t = tag_value Bytes) \<and> (sint t = 0 \<longrightarrow> t = tag_value JavaScript)
      \<and> (sint t = 3 \<longrightarrow> t = tag_value Direct)"
    using zero one two three four by simp
  show ?thesis
    using tags by (auto simp: call)
qed

theorem dispatched_tags_exactly_witness:
  "0 \<le> sint (5 :: int32_t) \<and> 0 \<le> sint (4 :: int32_t) \<and>
   jsDollarLazy False example_env 7 (example_frame (Inl 1)) 0 = Returned (Inr ''blob'') 1 \<and>
   jsDollarLazy False example_env 7 (example_frame (Inl 2)) 0 = Returned (Inr ''file'') 1 \<and>
   jsDollarLazy False example_env 7 (example_frame (Inl 4)) 0 = Returned (Inr ''bytes'') 1 \<and>
   jsDollarLazy False example_env 7 (example_frame (Inl 0)) 0 = Crashed (crash_message False) \<and>
   jsDollarLazy False example_env 7 (example_frame (Inl 3)) 0 = Crashed (crash_message False) \<and>
   jsDollarLazy False example_env 7 (example_frame (Inl 5)) 0 = Crashed (crash_message False)"
  using dispatched_tags_exactly [of False example_env "example_frame (Inl 1)" 1 7 0]
    dispatched_tags_exactly [of False example_env "example_frame (Inl 2)" 2 7 0]
    dispatched_tags_exactly [of False example_env "example_frame (Inl 4)" 4 7 0]
    dispatched_tags_exactly [of False example_env "example_frame (Inl 0)" 0 7 0]
    dispatched_tags_exactly [of False example_env "example_frame (Inl 3)" 3 7 0]
    dispatched_tags_exactly [of False example_env "example_frame (Inl 5)" 5 7 0]
  by simp

subsection \<open>The failure path\<close>

text \<open>
  Claim C3. For every token that is not negative and is none of the three dispatched tags,
  the call returns nothing to its caller, whatever the build and the argument; where the
  check of the debug build is passed or absent, it ends in the crash of the failure
  path, with the diagnostic of the build.
\<close>

theorem other_token_halts:
  assumes "asInt32 env (argument_slot callFrame 0) = t"
    and "0 \<le> sint t"
    and "t \<notin> {tag_value Blob, tag_value File, tag_value Bytes}"
  shows "(\<forall>r st'. jsDollarLazy BUN_DEBUG env g callFrame st \<noteq> Returned r st')
       \<and> (\<not> BUN_DEBUG \<or> isInt32 env (argument_slot callFrame 0) \<longrightarrow>
            jsDollarLazy BUN_DEBUG env g callFrame st = Crashed (crash_message BUN_DEBUG))"
proof (cases "\<not> BUN_DEBUG \<or> isInt32 env (argument_slot callFrame 0)")
  case True
  then have "jsDollarLazy BUN_DEBUG env g callFrame st = Crashed (crash_message BUN_DEBUG)"
    using assms by (auto simp: jsDollarLazy_token)
  then show ?thesis by simp
next
  case False
  then have "jsDollarLazy BUN_DEBUG env g callFrame st =
      AssertionFailed (assert_message (toWTFString env (argument_slot callFrame 0) g st))"
    by (simp add: jsDollarLazy_assert)
  with False show ?thesis by simp
qed

theorem other_token_halts_witness:
  "0 \<le> sint (3 :: int32_t) \<and> (3 :: int32_t) \<notin> {tag_value Blob, tag_value File, tag_value Bytes} \<and>
   jsDollarLazy False example_env 7 (example_frame (Inl 3)) 0 = Crashed (crash_message False) \<and>
   jsDollarLazy False example_env 7 (example_frame (Inl 3)) 0 \<noteq> Returned (Inr ''file'') 1"
  using other_token_halts [of example_env "example_frame (Inl 3)" 3 False 7 0]
  by simp

text \<open>
  Claim C7, as the code has it. The token \<open>- 3\<close> does not resolve against a table of two
  entries, and the call ends in the unchecked subscript, in either build, with no
  diagnostic at all. The tokens 0 and 9 do end in the crash of the failure path, for
  different engines, global objects and states, and carry one and the same text.
\<close>

theorem halt_diagnostic_counterexample:
  "jsDollarLazy True example_env 7 (example_frame (Inl (- 3))) 0 = OutOfBounds 2 \<and>
   jsDollarLazy False example_env 7 (example_frame (Inl (- 3))) 0 = OutOfBounds 2 \<and>
   jsDollarLazy False example_env 7 (example_frame (Inl 0)) 0 = Crashed (crash_message False) \<and>
   jsDollarLazy False (example_env\<lparr>js2nativePointers := []\<rparr>) 3 (example_frame (Inl 9)) 5 =
     Crashed (crash_message False)"
  by (simp add: jsDollarLazy_token array_read_def)

text \<open>
  Claim C7, amended. Whenever a call ends in the crash of the failure path, the
  diagnostic it carries is the fixed message of the build: the build flag alone chooses
  it, so any two such calls of one build, whatever their tokens, carry the same text. The
  calls that end so are those whose token is not negative and is none of the three
  dispatched tags, and they return nothing to their caller. A negative token never ends
  in this crash: out of range, its call is the unchecked subscript, with no diagnostic.
\<close>

theorem crash_diagnostic_by_build:
  assumes "asInt32 env (argument_slot callFrame 0) = t"
  shows "(jsDollarLazy BUN_DEBUG env g callFrame st = Crashed message \<longrightarrow>
            message = crash_message BUN_DEBUG \<and> 0 \<le> sint t \<and>
            t \<notin> {tag_value Blob, tag_value File, tag_value Bytes})
       \<and> (jsDollarLazy BUN_DEBUG env g callFrame st = Crashed message \<and>
          jsDollarLazy BUN_DEBUG env' g' callFrame' st' = Crashed message' \<longrightarrow>
            message' = message)
       \<and> (0 \<le> sint t \<and> t \<notin> {tag_value Blob, tag_value File, tag_value Bytes} \<longrightarrow>
            (\<forall>r st2. jsDollarLazy BUN_DEBUG env g callFrame st \<noteq> Returned r st2) \<and>
            (\<not> BUN_DEBUG \<or> isInt32 env (argument_slot callFrame 0) \<longrightarrow>
               jsDollarLazy BUN_DEBUG env g callFrame st = Crashed (crash_message BUN_DEBUG)))
       \<and> (sint t < 0 \<longrightarrow> jsDollarLazy BUN_DEBUG env g callFrame st \<noteq> Crashed message)
       \<and> (sint t < 0 \<and> (\<not> BUN_DEBUG \<or> isInt32 env (argument_slot callFrame 0)) \<and>
          int (length (js2nativePointers env)) \<le> - sint t - 1 \<longrightarrow>
            jsDollarLazy BUN_DEBUG env g callFrame st = OutOfBounds (- sint t - 1))"
proof -
  have crashed: "jsDollarLazy BUN_DEBUG env g callFrame st = Crashed message \<Longrightarrow>
      message = crash_message BUN_DEBUG \<and> 0 \<le> sint t \<and>
      t \<notin> {tag_value Blob, tag_value File, tag_value Bytes}"
    using jsDollarLazy_crashed [of BUN_DEBUG env g callFrame st message] assms by simp
  have same: "jsDollarLazy BUN_DEBUG env g callFrame st = Crashed message \<Longrightarrow>
      jsDollarLazy BUN_DEBUG env' g' callFrame' st' = Crashed message' \<Longrightarrow> message' = message"
    using jsDollarLazy_crashed [of BUN_DEBUG env g callFrame st message]
      jsDollarLazy_crashed [of BUN_DEBUG env' g' callFrame' st' message'] by simp
  have checked: "\<not> BUN_DEBUG \<or> isInt32 env (argument_slot callFrame 0) \<Longrightarrow>
      0 \<le> sint t \<Longrightarrow> t \<notin> {tag_value Blob, tag_value File, tag_value Bytes} \<Longrightarrow>
      jsDollarLazy BUN_DEBUG env g callFrame st = Crashed (crash_message BUN_DEBUG)"
    using assms by (auto simp: jsDollarLazy_token)
  have asserted: "\<not> (\<not> BUN_DEBUG \<or> isInt32 env (argument_slot callFrame 0)) \<Longrightarrow>
      jsDollarLazy BUN_DEBUG env g callFrame st =
        AssertionFailed (assert_message (toWTFString env (argument_slot callFrame 0) g st))"
    by (simp add: jsDollarLazy_assert)
  have halts: "0 \<le> sint t \<Longrightarrow> t \<notin> {tag_value Blob, tag_value File, tag_value Bytes} \<Longrightarrow>
      jsDollarLazy BUN_DEBUG env g callFrame st \<noteq> Returned r st2" for r st2
    using checked asserted by (cases "\<not> BUN_DEBUG \<or> isInt32 env (argument_slot callFrame 0)") simp_all
  have negative: "sint t < 0 \<Longrightarrow> jsDollarLazy BUN_DEBUG env g callFrame st \<noteq> Crashed message"
    using crashed by auto
  have outside: "sint t < 0 \<Longrightarrow> \<not> BUN_DEBUG \<or> isInt32 env (argument_slot callFrame 0) \<Longrightarrow>
      int (length (js2nativePointers env)) \<le> - sint t - 1 \<Longrightarrow>
      jsDollarLazy BUN_DEBUG env g callFrame st = OutOfBounds (- sint t - 1)"
    using assms by (simp add: jsDollarLazy_token array_read_def)
  show ?thesis
    using crashed same checked halts negative outside by blast
qed

theorem crash_diagnostic_by_build_witness:
  "jsDollarLazy False example_env 7 (example_frame (Inl 0)) 0 = Crashed (crash_message False) \<and>
   jsDollarLazy False (example_env\<lparr>js2nativePointers := []\<rparr>) 3 (example_frame (Inl 9)) 5 =
     Crashed (crash_message False) \<and>
   0 \<le> sint (0 :: int32_t) \<and> (0 :: int32_t) \<notin> {tag_value Blob, tag_value File, tag_value Bytes} \<and>
   sint (- 3 :: int32_t) < 0 \<and>
   jsDollarLazy False example_env 7 (example_frame (Inl (- 3))) 0 = OutOfBounds 2 \<and>
   jsDollarLazy False example_env 7 (example_frame (Inl (- 3))) 0 \<noteq> Crashed (crash_message False)"
proof -
  have first: "jsDollarLazy False example_env 7 (example_frame (Inl 0)) 0 = Crashed (crash_message False)"
    by (simp add: jsDollarLazy_token)
  have second: "jsDollarLazy False (example_env\<lparr>js2nativePointers := []\<rparr>) 3 (example_frame (Inl 9)) 5 =
      Crashed (crash_message False)"
    by (simp add: jsDollarLazy_token example_env_def example_frame_def)
  show ?thesis
    using first second
      crash_diagnostic_by_build [where env = example_env and callFrame = "example_frame (Inl 0)"
        and t = 0 and BUN_DEBUG = False and g = 7 and st = 0 and message = "crash_message False"
        and env' = "example_env\<lparr>js2nativePointers := []\<rparr>" and g' = 3
        and callFrame' = "example_frame (Inl 9)" and st' = 5 and message' = "crash_message False"]
      crash_diagnostic_by_build [where env = example_env and callFrame = "example_frame (Inl (- 3))"
        and t = "- 3" and BUN_DEBUG = False and g = 7 and st = 0 and message = "crash_message False"
        and env' = example_env and g' = 7 and callFrame' = "example_frame (Inl 0)" and st' = 0
        and message' = "crash_message False"]
    by simp
qed

subsection \<open>The argument of the call\<close>



text \<open>
  Claim C10. A call reads slot 0 of its frame and nothing else of it: two frames with the
  same first argument give the same outcome for the same global object, and the number of
  arguments the frame records is never consulted, so that changing it changes nothing.
\<close>

theorem only_first_argument_read:
  "(argument_slot callFrame 0 = argument_slot callFrame' 0 \<longrightarrow>
      jsDollarLazy BUN_DEBUG env g callFrame st = jsDollarLazy BUN_DEBUG env g callFrame' st)
   \<and> jsDollarLazy BUN_DEBUG env g (callFrame\<lparr>argumentCount := n\<rparr>) st =
       jsDollarLazy BUN_DEBUG env g callFrame st"
  by (simp add: jsDollarLazy_def uncheckedArgument_def)

theorem only_first_argument_read_witness:
  "argument_slot (example_frame (Inl (- 1))) 0 =
     argument_slot \<lparr>argumentCount = 3, argument_slot = (\<lambda>i. JSValue (Inl (- 1)))\<rparr> 0 \<and>
   jsDollarLazy True example_env 7 (example_frame (Inl (- 1))) 0 =
     jsDollarLazy True example_env 7
       \<lparr>argumentCount = 3, argument_slot = (\<lambda>i. JSValue (Inl (- 1)))\<rparr> 0 \<and>
   jsDollarLazy True example_env 7 ((example_frame (Inl (- 1)))\<lparr>argumentCount := 0\<rparr>) 0 =
     jsDollarLazy True example_env 7 (example_frame (Inl (- 1))) 0"
  using only_first_argument_read [of "example_frame (Inl (- 1))"
      "\<lparr>argumentCount = 3, argument_slot = (\<lambda>i. JSValue (Inl (- 1)))\<rparr>" True example_env 7 0 0]
  by (simp add: example_frame_def)

subsection \<open>Repeated dispatch\<close>

text \<open>
  Claim C8. Take a valid token, negative and inside the table or one of the three
  dispatched tags, and let the function it resolves to be deterministic: its value for
  this global object does not depend on the state it runs in. Then two calls with that
  token, from any two frames and in any two states, both return, and they return the
  same value: the dispatcher keeps nothing from one call to the next.
\<close>

theorem repeated_dispatch_same_result:
  assumes "\<not> BUN_DEBUG \<or> isInt32 env (argument_slot callFrame 0)"
    and "\<not> BUN_DEBUG \<or> isInt32 env (argument_slot callFrame' 0)"
    and "asInt32 env (argument_slot callFrame 0) = t"
    and "asInt32 env (argument_slot callFrame' 0) = t"
    and "(sint t < 0 \<and> - sint t - 1 < int (length (js2nativePointers env)))
         \<or> t \<in> {tag_value Blob, tag_value File, tag_value Bytes}"
    and "sint t < 0 \<longrightarrow>
           (\<forall>s s'. fst ((js2nativePointers env ! nat (- sint t - 1)) g s) =
                    fst ((js2nativePointers env ! nat (- sint t - 1)) g s'))"
    and "t = tag_value Blob \<longrightarrow>
           (\<forall>s s'. fst (ByteBlob_load env g s) = fst (ByteBlob_load env g s'))"
    and "t = tag_value File \<longrightarrow>
           (\<forall>s s'. fst (FileReader_load env g s) = fst (FileReader_load env g s'))"
    and "t = tag_value Bytes \<longrightarrow>
           (\<forall>s s'. fst (ByteStream_load env g s) = fst (ByteStream_load env g s'))"
  shows "\<exists>r. (\<exists>st1. jsDollarLazy BUN_DEBUG env g callFrame st = Returned r st1)
            \<and> (\<exists>st2. jsDollarLazy BUN_DEBUG env g callFrame' st' = Returned r st2)"
proof (cases "sint t < 0")
  case True
  with assms(5) have inside: "- sint t - 1 < int (length (js2nativePointers env))"
    by auto
  define f where "f = js2nativePointers env ! nat (- sint t - 1)"
  have entry: "array_read (js2nativePointers env) (- sint t - 1) = Some f"
    using True inside by (simp add: array_read_def f_def)
  have same: "fst (f g st) = fst (f g st')"
    using assms(6) True by (simp add: f_def)
  have "jsDollarLazy BUN_DEBUG env g callFrame st = Returned (encode (fst (f g st))) (snd (f g st))"
    using assms(1,3) True entry by (simp add: jsDollarLazy_token)
  moreover have "jsDollarLazy BUN_DEBUG env g callFrame' st' =
      Returned (encode (fst (f g st))) (snd (f g st'))"
    using assms(2,4) True entry same by (simp add: jsDollarLazy_token)
  ultimately show ?thesis by blast
next
  case False
  with assms(5) consider "t = 1" | "t = 2" | "t = 4"
    by auto
  then show ?thesis
  proof cases
    case 1
    then have same: "fst (ByteBlob_load env g st) = fst (ByteBlob_load env g st')"
      using assms(7) by simp
    have "jsDollarLazy BUN_DEBUG env g callFrame st =
        Returned (fst (ByteBlob_load env g st)) (snd (ByteBlob_load env g st))"
      using assms(1,3) 1 by (simp add: jsDollarLazy_token)
    moreover have "jsDollarLazy BUN_DEBUG env g callFrame' st' =
        Returned (fst (ByteBlob_load env g st)) (snd (ByteBlob_load env g st'))"
      using assms(2,4) 1 same by (simp add: jsDollarLazy_token)
    ultimately show ?thesis by blast
  next
    case 2
    then have same: "fst (FileReader_load env g st) = fst (FileReader_load env g st')"
      using assms(8) by simp
    have "jsDollarLazy BUN_DEBUG env g callFrame st =
        Returned (fst (FileReader_load env g st)) (snd (FileReader_load env g st))"
      using assms(1,3) 2 by (simp add: jsDollarLazy_token)
    moreover have "jsDollarLazy BUN_DEBUG env g callFrame' st' =
        Returned (fst (FileReader_load env g st)) (snd (FileReader_load env g st'))"
      using assms(2,4) 2 same by (simp add: jsDollarLazy_token)
    ultimately show ?thesis by blast
  next
    case 3
    then have same: "fst (ByteStream_load env g st) = fst (ByteStream_load env g st')"
      using assms(9) by simp
    have "jsDollarLazy BUN_DEBUG env g callFrame st =
        Returned (fst (ByteStream_load env g st)) (snd (ByteStream_load env g st))"
      using assms(1,3) 3 by (simp add: jsDollarLazy_token)
    moreover have "jsDollarLazy BUN_DEBUG env g callFrame' st' =
        Returned (fst (ByteStream_load env g st)) (snd (ByteStream_load env g st'))"
      using assms(2,4) 3 same by (simp add: jsDollarLazy_token)
    ultimately show ?thesis by blast
  qed
qed

theorem repeated_dispatch_same_result_witness:
  "(\<exists>r. (\<exists>st1. jsDollarLazy True example_env 7 (example_frame (Inl (- 2))) 0 = Returned r st1)
       \<and> (\<exists>st2. jsDollarLazy True example_env 7 (example_frame (Inl (- 2))) 1 = Returned r st2)) \<and>
   (\<exists>r. (\<exists>st1. jsDollarLazy True example_env 7 (example_frame (Inl 4)) 0 = Returned r st1)
       \<and> (\<exists>st2. jsDollarLazy True example_env 7 (example_frame (Inl 4)) 1 = Returned r st2)) \<and>
   jsDollarLazy True example_env 7 (example_frame (Inl (- 2))) 0 = Returned (Inr ''second'') 1 \<and>
   jsDollarLazy True example_env 7 (example_frame (Inl (- 2))) 1 = Returned (Inr ''second'') 2"
proof -
  have table: "\<exists>r. (\<exists>st1. jsDollarLazy True example_env 7 (example_frame (Inl (- 2))) 0 = Returned r st1)
       \<and> (\<exists>st2. jsDollarLazy True example_env 7 (example_frame (Inl (- 2))) 1 = Returned r st2)"
    by (rule repeated_dispatch_same_result [where t = "- 2"]) simp_all
  have tag: "\<exists>r. (\<exists>st1. jsDollarLazy True example_env 7 (example_frame (Inl 4)) 0 = Returned r st1)
       \<and> (\<exists>st2. jsDollarLazy True example_env 7 (example_frame (Inl 4)) 1 = Returned r st2)"
    by (rule repeated_dispatch_same_result [where t = 4]) simp_all
  have "jsDollarLazy True example_env 7 (example_frame (Inl (- 2))) 0 = Returned (Inr ''second'') 1"
    and "jsDollarLazy True example_env 7 (example_frame (Inl (- 2))) 1 = Returned (Inr ''second'') 2"
    by (simp_all add: jsDollarLazy_token array_read_def)
  with table tag show ?thesis by blast
qed

end
